theory Spec2Isabelle
  imports Complex_Main
begin

section \<open>The AQI dashboard: classification, exposure estimate and favorites\<close>

text \<open>
  A shallow embedding of the logic of \<^verbatim>\<open>src/components/pages/Aqi.tsx\<close>: the two leaf
  functions \<^verbatim>\<open>getCigaretteEquivalent\<close> and \<^verbatim>\<open>getHealthAdvice\<close>, the derived value
  \<^verbatim>\<open>advice\<close>, the normalisation of the index read from the feed, the initializer of
  the \<^verbatim>\<open>favorites\<close> state and the updaters \<^verbatim>\<open>toggleFavorite\<close> and
  \<^verbatim>\<open>removeFavorite\<close>.
\<close>

subsection \<open>JavaScript numbers and comparison\<close>

text \<open>
  A JavaScript \<^verbatim>\<open>number\<close> is an IEEE double: not-a-number, one of the two infinities,
  or a finite value. Every finite double is a rational number, and the code only compares
  the index with integer literals, which is exact; so a finite value is carried as a
  \<^typ>\<open>real\<close>. The two zeros compare equal and are both falsy, and are one value here.
\<close>

datatype number = NaN | NegInf | Fin real | PosInf

text \<open>The operator \<^verbatim>\<open><=\<close> on numbers: false as soon as one side is not-a-number.\<close>

fun js_le :: "number \<Rightarrow> number \<Rightarrow> bool" where
  "js_le NaN _ = False"
| "js_le _ NaN = False"
| "js_le NegInf _ = True"
| "js_le _ PosInf = True"
| "js_le (Fin a) (Fin b) = (a \<le> b)"
| "js_le (Fin a) NegInf = False"
| "js_le PosInf _ = False"

subsection \<open>The estimator\<close>

text \<open>
  \<^verbatim>\<open>getCigaretteEquivalent(aqi: number | null)\<close>; \<^verbatim>\<open>null\<close> is \<^const>\<open>None\<close>. The source
  tests \<^verbatim>\<open>aqi <= 400\<close> before its last \<^verbatim>\<open>return 13\<close>; both branches are kept.
\<close>

definition getCigaretteEquivalent :: "number option \<Rightarrow> nat" where
  "getCigaretteEquivalent aqi =
     (case aqi of
        None \<Rightarrow> 0
      | Some a \<Rightarrow>
          if js_le a (Fin 50) then 0
          else if js_le a (Fin 100) then 2
          else if js_le a (Fin 200) then 5
          else if js_le a (Fin 300) then 8
          else if js_le a (Fin 400) then 13
          else 13)"

subsection \<open>The classifier\<close>

record health_advice =
  level :: string
  action :: string
  mask :: bool

text \<open>
  The first advisory text holds, between ``good'' and ``enjoy'', three characters outside
  ASCII (U+201A, U+00C4, U+00EE in the file as it is); they are written here as the bytes of
  their UTF-8 encoding.
\<close>

definition getHealthAdvice :: "number \<Rightarrow> health_advice" where
  "getHealthAdvice aqi =
     (if js_le aqi (Fin 50) then
        \<lparr>level = ''Good'',
         action = ''Air quality is good ''
                  @ [CHR 0xE2, CHR 0x80, CHR 0x9A, CHR 0xC3, CHR 0x84, CHR 0xC3, CHR 0xAE]
                  @ '' enjoy outdoor activities.'',
         mask = False\<rparr>
      else if js_le aqi (Fin 100) then
        \<lparr>level = ''Moderate'',
         action = ''Some sensitive people should reduce strenuous outdoor activity.'',
         mask = False\<rparr>
      else if js_le aqi (Fin 150) then
        \<lparr>level = ''Unhealthy for Sensitive Groups'',
         action = ''People with respiratory conditions should limit outdoor exposure. Consider wearing an N95 for long time outdoors.'',
         mask = True\<rparr>
      else if js_le aqi (Fin 200) then
        \<lparr>level = ''Unhealthy'',
         action = ''Avoid extended outdoor exertion. Use an N95/KN95 mask outdoors.'',
         mask = True\<rparr>
      else if js_le aqi (Fin 300) then
        \<lparr>level = ''Very Unhealthy'',
         action = ''Stay indoors and use air purifiers if possible. Masks strongly recommended outdoors.'',
         mask = True\<rparr>
      else
        \<lparr>level = ''Hazardous'',
         action = ''Remain indoors, avoid all outdoor activity. Seek medical advice if symptoms occur.'',
         mask = True\<rparr>)"

text \<open>
  The derived value of the component:
  \<^verbatim>\<open>advice = aqi !== null ? getHealthAdvice(aqi) : null\<close>.
\<close>

definition advice :: "number option \<Rightarrow> health_advice option" where
  "advice aqi = (case aqi of Some a \<Rightarrow> Some (getHealthAdvice a) | None \<Rightarrow> None)"

text \<open>
  The tier label next to the number:
  \<^verbatim>\<open>aqi !== null ? getHealthAdvice(aqi).level : ""\<close>.
\<close>

definition levelLabel :: "number option \<Rightarrow> string" where
  "levelLabel aqi = (case aqi of Some a \<Rightarrow> level (getHealthAdvice a) | None \<Rightarrow> '''')"

subsection \<open>The index read from the feed\<close>

text \<open>
  Values of the parsed payload. \<^verbatim>\<open>fetchAndSet\<close> stores the index with
  \<^verbatim>\<open>setAqi(typeof d.aqi === "number" ? d.aqi : (Number(d.aqi) || null))\<close>.
  The conversion \<^verbatim>\<open>Number\<close> is a built-in of the language and is a parameter here;
  \<^verbatim>\<open>n || null\<close> is \<^verbatim>\<open>null\<close> exactly when \<^verbatim>\<open>n\<close> is falsy, which for a number means zero
  or not-a-number.
\<close>

datatype jsval =
    Undefined
  | Null
  | Bool bool
  | Num number
  | Str string
  | Arr "jsval list"
  | Obj "(string \<times> jsval) list"

fun falsy :: "number \<Rightarrow> bool" where
  "falsy NaN = True"
| "falsy (Fin x) = (x = 0)"
| "falsy NegInf = False"
| "falsy PosInf = False"

definition feedAqi :: "(jsval \<Rightarrow> number) \<Rightarrow> jsval \<Rightarrow> number option" where
  "feedAqi Number d_aqi =
     (case d_aqi of
        Num n \<Rightarrow> Some n
      | _ \<Rightarrow> (let n = Number d_aqi in if falsy n then None else Some n))"

subsection \<open>The favorites store\<close>

definition STORAGE_KEY :: string where
  "STORAGE_KEY = ''aqi_favorites_v1''"

text \<open>
  Thrown values, and results of code that may throw: \<^const>\<open>Inl\<close> is a throw.
  \<^verbatim>\<open>localStorage\<close> is a map from keys to strings whose access may be refused by the
  browser, in which case reading throws; \<^verbatim>\<open>getItem\<close> gives \<^verbatim>\<open>null\<close> for a missing key.
\<close>

datatype exn = SecurityError | SyntaxError

datatype storage = Unavailable | Store "string \<rightharpoonup> string"

fun getItem :: "storage \<Rightarrow> string \<Rightarrow> exn + string option" where
  "getItem Unavailable k = Inl SecurityError"
| "getItem (Store m) k = Inr (m k)"

definition try_catch :: "exn + 'a \<Rightarrow> exn + 'a \<Rightarrow> exn + 'a" where
  "try_catch body handler = (case body of Inl e \<Rightarrow> handler | Inr v \<Rightarrow> Inr v)"

definition and_then :: "exn + 'a \<Rightarrow> ('a \<Rightarrow> exn + 'b) \<Rightarrow> exn + 'b" where
  "and_then r f = (case r of Inl e \<Rightarrow> Inl e | Inr v \<Rightarrow> f v)"

text \<open>
  The initializer of the \<^verbatim>\<open>favorites\<close> state:
  \<^verbatim>\<open>
  try {
    const raw = localStorage.getItem(STORAGE_KEY);
    return raw ? JSON.parse(raw) : [];
  } catch {
    return [];
  }
  \<close>
  \<^verbatim>\<open>JSON.parse\<close> is a built-in (it returns a value or throws) and is a parameter.
  \<^verbatim>\<open>raw\<close> is truthy when it is a string that is not empty. The result is whatever
  value the parser gave: the annotation \<^verbatim>\<open>string[]\<close> is not checked at run time.
\<close>

definition initFavorites :: "storage \<Rightarrow> (string \<Rightarrow> exn + jsval) \<Rightarrow> exn + jsval" where
  "initFavorites localStorage JSON_parse =
     try_catch
       (and_then (getItem localStorage STORAGE_KEY)
          (\<lambda>raw. case raw of
                    None \<Rightarrow> Inr (Arr [])
                  | Some s \<Rightarrow> if s = [] then Inr (Arr []) else JSON_parse s))
       (Inr (Arr []))"

text \<open>
  The updaters passed to \<^verbatim>\<open>setFavorites\<close>, as functions from the previous list to the
  next one:
  \<^verbatim>\<open>
  if (prev.includes(name)) return prev.filter((p) => p !== name);
  return [name, ...prev].slice(0, 10);
  \<close>
  and \<^verbatim>\<open>prev.filter((p) => p !== name)\<close> for \<^verbatim>\<open>removeFavorite\<close>.
\<close>

definition toggleFavorite :: "string \<Rightarrow> string list \<Rightarrow> string list" where
  "toggleFavorite name prev =
     (if name \<in> set prev then filter (\<lambda>p. p \<noteq> name) prev
      else take 10 (name # prev))"

definition removeFavorite :: "string \<Rightarrow> string list \<Rightarrow> string list" where
  "removeFavorite name prev = filter (\<lambda>p. p \<noteq> name) prev"

subsection \<open>The classifier and the estimator on the bands\<close>

text \<open>
  Claim C1. Every index from 0 to 50 is classified ``Good'' with no mask, every index from
  151 to 200 ``Unhealthy'' with a mask; the index 75 is ``Moderate'' with no mask and the
  index 250 ``Very Unhealthy'' with a mask.
\<close>

theorem getHealthAdvice_bands:
  "(0 \<le> v \<and> v \<le> 50 \<longrightarrow>
      level (getHealthAdvice (Fin v)) = ''Good'' \<and> mask (getHealthAdvice (Fin v)) = False)
   \<and> (151 \<le> v \<and> v \<le> 200 \<longrightarrow>
      level (getHealthAdvice (Fin v)) = ''Unhealthy'' \<and> mask (getHealthAdvice (Fin v)) = True)
   \<and> level (getHealthAdvice (Fin 75)) = ''Moderate''
   \<and> mask (getHealthAdvice (Fin 75)) = False
   \<and> level (getHealthAdvice (Fin 250)) = ''Very Unhealthy''
   \<and> mask (getHealthAdvice (Fin 250)) = True"
  by (simp add: getHealthAdvice_def)

text \<open>The bands of C1 at the indices 25 and 175.\<close>

theorem getHealthAdvice_bands_witness:
  "(0::real) \<le> 25 \<and> (25::real) \<le> 50
   \<and> level (getHealthAdvice (Fin 25)) = ''Good'' \<and> mask (getHealthAdvice (Fin 25)) = False
   \<and> (151::real) \<le> 175 \<and> (175::real) \<le> 200
   \<and> level (getHealthAdvice (Fin 175)) = ''Unhealthy''
   \<and> mask (getHealthAdvice (Fin 175)) = True"
  using getHealthAdvice_bands [of 25] getHealthAdvice_bands [of 175] by simp

text \<open>
  Claim C2. The estimator is a step function of the index: 0 up to 50, 2 above 50 up to 100,
  5 above 100 up to 200, 8 above 200 up to 300, 13 above 300 (the infinities included), and
  0 when there is no reading; with the values listed at 0, 50, 51, 100, 101, 300, 301 and
  10000.
\<close>

theorem getCigaretteEquivalent_steps:
  "(v \<le> 50 \<longrightarrow> getCigaretteEquivalent (Some (Fin v)) = 0)
   \<and> (50 < v \<and> v \<le> 100 \<longrightarrow> getCigaretteEquivalent (Some (Fin v)) = 2)
   \<and> (100 < v \<and> v \<le> 200 \<longrightarrow> getCigaretteEquivalent (Some (Fin v)) = 5)
   \<and> (200 < v \<and> v \<le> 300 \<longrightarrow> getCigaretteEquivalent (Some (Fin v)) = 8)
   \<and> (300 < v \<longrightarrow> getCigaretteEquivalent (Some (Fin v)) = 13)
   \<and> getCigaretteEquivalent (Some NegInf) = 0
   \<and> getCigaretteEquivalent (Some PosInf) = 13
   \<and> getCigaretteEquivalent None = 0
   \<and> getCigaretteEquivalent (Some (Fin 0)) = 0
   \<and> getCigaretteEquivalent (Some (Fin 50)) = 0
   \<and> getCigaretteEquivalent (Some (Fin 51)) = 2
   \<and> getCigaretteEquivalent (Some (Fin 100)) = 2
   \<and> getCigaretteEquivalent (Some (Fin 101)) = 5
   \<and> getCigaretteEquivalent (Some (Fin 300)) = 8
   \<and> getCigaretteEquivalent (Some (Fin 301)) = 13
   \<and> getCigaretteEquivalent (Some (Fin 10000)) = 13"
  by (simp add: getCigaretteEquivalent_def)

text \<open>One index inside each of the five steps of C2.\<close>

theorem getCigaretteEquivalent_steps_witness:
  "(-3::real) \<le> 50 \<and> getCigaretteEquivalent (Some (Fin (-3))) = 0
   \<and> (50::real) < 75.5 \<and> (75.5::real) \<le> 100
   \<and> getCigaretteEquivalent (Some (Fin 75.5)) = 2
   \<and> (100::real) < 150 \<and> (150::real) \<le> 200
   \<and> getCigaretteEquivalent (Some (Fin 150)) = 5
   \<and> (200::real) < 250 \<and> (250::real) \<le> 300
   \<and> getCigaretteEquivalent (Some (Fin 250)) = 8
   \<and> (300::real) < 450 \<and> getCigaretteEquivalent (Some (Fin 450)) = 13"
  using getCigaretteEquivalent_steps [of "-3"] getCigaretteEquivalent_steps [of "75.5"]
    getCigaretteEquivalent_steps [of 150] getCigaretteEquivalent_steps [of 250]
    getCigaretteEquivalent_steps [of 450]
  by simp

text \<open>
  Claim C3. An index equal to the upper bound of a band belongs to that band: 50 is
  ``Good'', 100 ``Moderate'', 150 ``Unhealthy for Sensitive Groups'', 200 ``Unhealthy'' and
  300 ``Very Unhealthy''; and the indices 50 and 51 fall in different tiers.
\<close>

theorem getHealthAdvice_boundaries:
  "level (getHealthAdvice (Fin 50)) = ''Good''
   \<and> level (getHealthAdvice (Fin 100)) = ''Moderate''
   \<and> level (getHealthAdvice (Fin 150)) = ''Unhealthy for Sensitive Groups''
   \<and> level (getHealthAdvice (Fin 200)) = ''Unhealthy''
   \<and> level (getHealthAdvice (Fin 300)) = ''Very Unhealthy''
   \<and> level (getHealthAdvice (Fin 50)) \<noteq> level (getHealthAdvice (Fin 51))"
  by (simp add: getHealthAdvice_def)

text \<open>
  Claim C4. For every number, not-a-number and the infinities included, the mask flag is
  false exactly when the tier is ``Good'' or ``Moderate'', which is exactly when the index
  is at most 100; in every other tier the flag is true.
\<close>

theorem getHealthAdvice_mask:
  "(mask (getHealthAdvice a) = False) =
     (level (getHealthAdvice a) = ''Good'' \<or> level (getHealthAdvice a) = ''Moderate'')
   \<and> (mask (getHealthAdvice a) = False) = js_le a (Fin 100)"
  by (cases a) (simp_all add: getHealthAdvice_def)

text \<open>The mask flag of C4 at 75, at 175 and at not-a-number.\<close>

theorem getHealthAdvice_mask_witness:
  "mask (getHealthAdvice (Fin 75)) = False \<and> js_le (Fin 75) (Fin 100)
   \<and> mask (getHealthAdvice (Fin 175)) = True \<and> \<not> js_le (Fin 175) (Fin 100)
   \<and> mask (getHealthAdvice NaN) = True \<and> level (getHealthAdvice NaN) = ''Hazardous''"
  using getHealthAdvice_mask [of "Fin 75"] getHealthAdvice_mask [of "Fin 175"]
    getHealthAdvice_mask [of NaN]
  by (simp add: getHealthAdvice_def)

text \<open>
  Claim C9. With no reading the derived advice is \<^verbatim>\<open>null\<close>, so it carries neither a tier
  nor an advisory text, the tier label is the empty string, and the estimator gives 0.
\<close>

theorem no_reading:
  "advice None = None
   \<and> map_option level (advice None) = None
   \<and> map_option action (advice None) = None
   \<and> levelLabel None = ''''
   \<and> getCigaretteEquivalent None = 0"
  by (simp add: advice_def levelLabel_def getCigaretteEquivalent_def)

subsection \<open>Toggling and removing favorites\<close>

lemma filter_neq_removeAll: "filter (\<lambda>p. p \<noteq> n) L = removeAll n L"
  by (induction L) auto

lemma toggleFavorite_absent: "n \<notin> set L \<Longrightarrow> toggleFavorite n L = n # take 9 L"
  by (simp add: toggleFavorite_def)

lemma toggleFavorite_present: "n \<in> set L \<Longrightarrow> toggleFavorite n L = removeAll n L"
  by (simp add: toggleFavorite_def filter_neq_removeAll)

lemma toggleFavorite_distinct: "distinct L \<Longrightarrow> distinct (toggleFavorite n L)"
proof (cases "n \<in> set L")
  case True
  assume "distinct L"
  with True show ?thesis by (simp add: toggleFavorite_def)
next
  case False
  assume d: "distinct L"
  have "n \<notin> set (take 9 L)"
    using False in_set_takeD by fastforce
  with d show ?thesis
    by (simp add: toggleFavorite_absent [OF False])
qed

lemma toggleFavorite_length: "length L \<le> 10 \<Longrightarrow> length (toggleFavorite n L) \<le> 10"
proof (cases "n \<in> set L")
  case True
  assume "length L \<le> 10"
  moreover have "length (filter (\<lambda>p. p \<noteq> n) L) \<le> length L"
    by (rule length_filter_le)
  ultimately have "length (filter (\<lambda>p. p \<noteq> n) L) \<le> 10"
    by (rule_tac order_trans)
  with True show ?thesis
    by (simp add: toggleFavorite_def)
next
  case False
  then show ?thesis
    by (simp add: toggleFavorite_absent)
qed

lemma take_append_take: "take k (xs @ take k ys) = take k (xs @ ys)"
  by simp

text \<open>
  Toggling, one after the other, names that are pairwise different and not yet in the
  list puts them in front in reverse order and keeps the first ten entries.
\<close>

lemma fold_toggleFavorite_fresh:
  "distinct ns \<Longrightarrow> set ns \<inter> set L = {} \<Longrightarrow> length L \<le> 10 \<Longrightarrow>
   fold toggleFavorite ns L = take 10 (rev ns @ L)"
proof (induction ns arbitrary: L)
  case Nil
  then show ?case by simp
next
  case (Cons n ns)
  from Cons.prems have fresh: "n \<notin> set L" and d: "distinct ns" and nn: "n \<notin> set ns"
    and disj: "set ns \<inter> set L = {}"
    by auto
  have step: "toggleFavorite n L = take 10 (n # L)"
    using fresh by (simp add: toggleFavorite_def)
  have "set (take 10 (n # L)) \<subseteq> insert n (set L)"
    using set_take_subset [of 10 "n # L"] by simp
  with nn disj have disj': "set ns \<inter> set (take 10 (n # L)) = {}"
    by auto
  have len': "length (take 10 (n # L)) \<le> 10"
    by simp
  have "fold toggleFavorite (n # ns) L = fold toggleFavorite ns (take 10 (n # L))"
    by (simp add: step)
  also have "\<dots> = take 10 (rev ns @ take 10 (n # L))"
    using Cons.IH [OF d disj' len'] .
  also have "\<dots> = take 10 (rev ns @ n # L)"
    by (rule take_append_take)
  finally show ?case by simp
qed

text \<open>
  Claim C5. A toggle of a name that is in the list removes it (every occurrence, the other
  entries keeping their order); a toggle of a name that is not in the list puts it in front
  and keeps the first ten entries of the result, that is, the name followed by the first
  nine entries of the list. Two toggles of the same name in a row give back the membership
  of that name. On the empty list a toggle of ``Paris'' gives the list of ``Paris'' alone,
  and a second one the empty list.
\<close>

theorem toggleFavorite_spec:
  "(n \<in> set L \<longrightarrow> toggleFavorite n L = removeAll n L \<and> n \<notin> set (toggleFavorite n L))
   \<and> (n \<notin> set L \<longrightarrow>
        toggleFavorite n L = take 10 (n # L) \<and> toggleFavorite n L = n # take 9 L
        \<and> n \<in> set (toggleFavorite n L))
   \<and> (n \<in> set (toggleFavorite n (toggleFavorite n L))) = (n \<in> set L)
   \<and> toggleFavorite ''Paris'' [] = [''Paris'']
   \<and> toggleFavorite ''Paris'' (toggleFavorite ''Paris'' []) = []"
proof -
  have present: "toggleFavorite n L = removeAll n L \<and> n \<notin> set (toggleFavorite n L)"
    if "n \<in> set L"
    using that by (simp add: toggleFavorite_present)
  have absent: "toggleFavorite n L = take 10 (n # L) \<and> toggleFavorite n L = n # take 9 L
      \<and> n \<in> set (toggleFavorite n L)"
    if "n \<notin> set L"
    using that by (simp add: toggleFavorite_def)
  have twice: "(n \<in> set (toggleFavorite n (toggleFavorite n L))) = (n \<in> set L)"
  proof (cases "n \<in> set L")
    case True
    with present have "n \<notin> set (toggleFavorite n L)" by simp
    then have "n \<in> set (toggleFavorite n (toggleFavorite n L))"
      by (simp add: toggleFavorite_absent)
    with True show ?thesis by simp
  next
    case False
    with absent have "n \<in> set (toggleFavorite n L)" by simp
    then have "n \<notin> set (toggleFavorite n (toggleFavorite n L))"
      by (simp add: toggleFavorite_present)
    with False show ?thesis by simp
  qed
  have paris: "toggleFavorite ''Paris'' [] = [''Paris'']"
    by (simp add: toggleFavorite_def)
  have paris2: "toggleFavorite ''Paris'' (toggleFavorite ''Paris'' []) = []"
    by (simp add: toggleFavorite_def)
  from present absent twice paris paris2 show ?thesis by blast
qed

text \<open>C5 on a list that holds the name and on a list that does not.\<close>

theorem toggleFavorite_spec_witness:
  "''Paris'' \<in> set [''Rome'', ''Paris'', ''Oslo'']
   \<and> toggleFavorite ''Paris'' [''Rome'', ''Paris'', ''Oslo''] = [''Rome'', ''Oslo'']
   \<and> ''Lima'' \<notin> set [''Rome'', ''Oslo'']
   \<and> toggleFavorite ''Lima'' [''Rome'', ''Oslo''] = [''Lima'', ''Rome'', ''Oslo'']"
  using toggleFavorite_spec [of "''Paris''" "[''Rome'', ''Paris'', ''Oslo'']"]
    toggleFavorite_spec [of "''Lima''" "[''Rome'', ''Oslo'']"]
  by simp

text \<open>
  Claim C6. A list without duplicates and of at most ten entries stays so under every toggle
  and every removal. Eleven pairwise different names toggled one after the other onto the
  empty list leave the last ten of them, the most recent in front, without the first one.
\<close>

theorem favorites_invariant:
  "(distinct L \<and> length L \<le> 10 \<longrightarrow>
      distinct (toggleFavorite n L) \<and> length (toggleFavorite n L) \<le> 10
      \<and> distinct (removeFavorite n L) \<and> length (removeFavorite n L) \<le> 10)
   \<and> (distinct (first # rest) \<and> length rest = 10 \<longrightarrow>
      fold toggleFavorite (first # rest) [] = rev rest
      \<and> first \<notin> set (fold toggleFavorite (first # rest) []))"
proof -
  have inv: "distinct (toggleFavorite n L) \<and> length (toggleFavorite n L) \<le> 10
      \<and> distinct (removeFavorite n L) \<and> length (removeFavorite n L) \<le> 10"
    if "distinct L" and "length L \<le> 10"
  proof -
    have "length (removeFavorite n L) \<le> length L"
      unfolding removeFavorite_def by (rule length_filter_le)
    with that have "length (removeFavorite n L) \<le> 10"
      by simp
    moreover have "distinct (removeFavorite n L)"
      using that by (simp add: removeFavorite_def)
    ultimately show ?thesis
      using that by (simp add: toggleFavorite_distinct toggleFavorite_length)
  qed
  have cap: "fold toggleFavorite (first # rest) [] = rev rest
      \<and> first \<notin> set (fold toggleFavorite (first # rest) [])"
    if d: "distinct (first # rest)" and len: "length rest = 10"
  proof -
    have "fold toggleFavorite (first # rest) [] = take 10 (rev (first # rest) @ [])"
      using d by (intro fold_toggleFavorite_fresh) simp_all
    also have "\<dots> = rev rest"
      using len by simp
    finally have eq: "fold toggleFavorite (first # rest) [] = rev rest" .
    from d have "first \<notin> set (rev rest)" by simp
    with eq show ?thesis by simp
  qed
  from inv cap show ?thesis by blast
qed

text \<open>C6 on a list of two names, and on the eleven names k0 to k10.\<close>

theorem favorites_invariant_witness:
  "distinct [''a'', ''b''] \<and> length [''a'', ''b''] \<le> 10
   \<and> toggleFavorite ''c'' [''a'', ''b''] = [''c'', ''a'', ''b'']
   \<and> removeFavorite ''a'' [''a'', ''b''] = [''b'']
   \<and> distinct
        (''k0'' # [''k1'', ''k2'', ''k3'', ''k4'', ''k5'', ''k6'', ''k7'', ''k8'', ''k9'', ''k10''])
   \<and> length [''k1'', ''k2'', ''k3'', ''k4'', ''k5'', ''k6'', ''k7'', ''k8'', ''k9'', ''k10''] = 10
   \<and> fold toggleFavorite
        [''k0'', ''k1'', ''k2'', ''k3'', ''k4'', ''k5'', ''k6'', ''k7'', ''k8'', ''k9'', ''k10'']
        []
      = [''k10'', ''k9'', ''k8'', ''k7'', ''k6'', ''k5'', ''k4'', ''k3'', ''k2'', ''k1'']"
  using favorites_invariant [of "[''a'', ''b'']" "''c''" "''k0''"
        "[''k1'', ''k2'', ''k3'', ''k4'', ''k5'', ''k6'', ''k7'', ''k8'', ''k9'', ''k10'']"]
  by (simp add: toggleFavorite_def removeFavorite_def)

subsection \<open>Loading the favorites\<close>

text \<open>The initializer, branch by branch, with the try and the catch resolved.\<close>

lemma initFavorites_cases:
  "initFavorites st JSON_parse =
     (case st of
        Unavailable \<Rightarrow> Inr (Arr [])
      | Store m \<Rightarrow>
          (case m STORAGE_KEY of
             None \<Rightarrow> Inr (Arr [])
           | Some s \<Rightarrow>
               if s = [] then Inr (Arr [])
               else (case JSON_parse s of Inl e \<Rightarrow> Inr (Arr []) | Inr v \<Rightarrow> Inr v)))"
  by (simp add: initFavorites_def try_catch_def and_then_def
      split: storage.split option.split sum.split)

text \<open>
  Claim C7. The initializer returns a value for every storage and every parser, whatever
  throws inside it. It returns the empty list when the key is missing, when the parser
  throws on the stored text, and when reading the storage throws.
\<close>

theorem initFavorites_never_throws:
  "(\<exists>v. initFavorites st JSON_parse = Inr v)
   \<and> (m STORAGE_KEY = None \<longrightarrow> initFavorites (Store m) JSON_parse = Inr (Arr []))
   \<and> (m STORAGE_KEY = Some raw \<and> JSON_parse raw = Inl e \<longrightarrow>
        initFavorites (Store m) JSON_parse = Inr (Arr []))
   \<and> initFavorites Unavailable JSON_parse = Inr (Arr [])"
  by (simp add: initFavorites_cases split: storage.split option.split sum.split)

text \<open>
  C7 on an empty storage, and on a stored text that is cut off, with a parser that throws
  on it.
\<close>

theorem initFavorites_never_throws_witness:
  "(Map.empty :: string \<rightharpoonup> string) STORAGE_KEY = None
   \<and> initFavorites (Store Map.empty) (\<lambda>s. Inl SyntaxError) = Inr (Arr [])
   \<and> [STORAGE_KEY \<mapsto> ''[\"Paris''] STORAGE_KEY = Some ''[\"Paris''
   \<and> (\<lambda>s. Inl SyntaxError :: exn + jsval) ''[\"Paris'' = Inl SyntaxError
   \<and> initFavorites (Store [STORAGE_KEY \<mapsto> ''[\"Paris'']) (\<lambda>s. Inl SyntaxError)
       = Inr (Arr [])"
  using initFavorites_never_throws [of "Store Map.empty" "\<lambda>s. Inl SyntaxError" Map.empty]
    initFavorites_never_throws [of "Store Map.empty" "\<lambda>s. Inl SyntaxError"
      "[STORAGE_KEY \<mapsto> ''[\"Paris'']" "''[\"Paris''" SyntaxError]
  by simp

text \<open>
  Claim C10, as the specification states it, has the empty list returned only when the key is
  missing, the stored text is empty or the parser throws. The empty list is also returned
  for the stored text \<^verbatim>\<open>[]\<close>, on which the parser gives the empty list, and when
  reading the storage throws.
\<close>

theorem initFavorites_empty_list_counterexample:
  "[STORAGE_KEY \<mapsto> ''[]''] STORAGE_KEY = Some ''[]''
   \<and> ''[]'' \<noteq> ''''
   \<and> (\<lambda>s. if s = ''[]'' then Inr (Arr []) else Inl SyntaxError) ''[]''
       = (Inr (Arr []) :: exn + jsval)
   \<and> initFavorites (Store [STORAGE_KEY \<mapsto> ''[]''])
        (\<lambda>s. if s = ''[]'' then Inr (Arr []) else Inl SyntaxError)
       = Inr (Arr [])
   \<and> initFavorites Unavailable (\<lambda>s. if s = ''[]'' then Inr (Arr []) else Inl SyntaxError)
       = Inr (Arr [])"
  by (simp add: initFavorites_def try_catch_def and_then_def)

text \<open>
  Claim C10, amended. The parsed value is not validated: when the key holds a text that is
  not empty and the parser returns a value, the initializer returns that very value, a list
  or not. The empty list is returned exactly when reading the storage throws, the key is
  missing, the stored text is empty, the parser throws on it, or the parser returns the
  empty list for it.
\<close>

theorem initFavorites_unvalidated:
  "(m STORAGE_KEY = Some raw \<and> raw \<noteq> [] \<and> JSON_parse raw = Inr v \<longrightarrow>
      initFavorites (Store m) JSON_parse = Inr v)
   \<and> (initFavorites st JSON_parse = Inr (Arr [])) =
       (st = Unavailable
        \<or> (\<exists>k. st = Store k
              \<and> (k STORAGE_KEY = None \<or> k STORAGE_KEY = Some []
                  \<or> (\<exists>s. k STORAGE_KEY = Some s
                        \<and> ((\<exists>e. JSON_parse s = Inl e) \<or> JSON_parse s = Inr (Arr []))))))"
proof -
  have unvalidated: "initFavorites (Store m) JSON_parse = Inr v"
    if "m STORAGE_KEY = Some raw" "raw \<noteq> []" "JSON_parse raw = Inr v"
    using that by (simp add: initFavorites_cases)
  have empty: "(initFavorites st JSON_parse = Inr (Arr [])) =
       (st = Unavailable
        \<or> (\<exists>k. st = Store k
              \<and> (k STORAGE_KEY = None \<or> k STORAGE_KEY = Some []
                  \<or> (\<exists>s. k STORAGE_KEY = Some s
                        \<and> ((\<exists>e. JSON_parse s = Inl e) \<or> JSON_parse s = Inr (Arr []))))))"
  proof (cases st)
    case Unavailable
    then show ?thesis by (simp add: initFavorites_cases)
  next
    case (Store k)
    show ?thesis
    proof (cases "k STORAGE_KEY")
      case None
      with Store show ?thesis by (simp add: initFavorites_cases)
    next
      case (Some s)
      show ?thesis
      proof (cases "JSON_parse s")
        case (Inl e)
        with Store Some show ?thesis by (simp add: initFavorites_cases)
      next
        case (Inr w)
        with Store Some show ?thesis by (simp add: initFavorites_cases)
      qed
    qed
  qed
  from unvalidated empty show ?thesis by blast
qed

text \<open>
  The amended C10 on the stored texts \<^verbatim>\<open>42\<close> and \<^verbatim>\<open>null\<close>, with a parser that gives
  the number 42 and the value null on them, as \<^verbatim>\<open>JSON.parse\<close> does; on the stored text
  \<^verbatim>\<open>[]\<close> with a parser that gives the empty list on it; on the empty text; and on a
  storage that cannot be read.
\<close>

theorem initFavorites_unvalidated_witness:
  "[STORAGE_KEY \<mapsto> ''42''] STORAGE_KEY = Some ''42'' \<and> ''42'' \<noteq> []
   \<and> initFavorites (Store [STORAGE_KEY \<mapsto> ''42''])
        (\<lambda>s. if s = ''42'' then Inr (Num (Fin 42))
             else if s = ''null'' then Inr Null else Inl SyntaxError)
       = Inr (Num (Fin 42))
   \<and> initFavorites (Store [STORAGE_KEY \<mapsto> ''null''])
        (\<lambda>s. if s = ''42'' then Inr (Num (Fin 42))
             else if s = ''null'' then Inr Null else Inl SyntaxError)
       = Inr Null
   \<and> Inr (Num (Fin 42)) \<noteq> (Inr (Arr []) :: exn + jsval)
   \<and> Inr Null \<noteq> (Inr (Arr []) :: exn + jsval)
   \<and> initFavorites (Store [STORAGE_KEY \<mapsto> ''[]''])
        (\<lambda>s. if s = ''[]'' then Inr (Arr []) else Inl SyntaxError)
       = Inr (Arr [])
   \<and> initFavorites (Store [STORAGE_KEY \<mapsto> ''''])
        (\<lambda>s. if s = ''42'' then Inr (Num (Fin 42))
             else if s = ''null'' then Inr Null else Inl SyntaxError)
       = Inr (Arr [])
   \<and> initFavorites Unavailable (\<lambda>s. Inl SyntaxError) = Inr (Arr [])"
  using
    initFavorites_unvalidated [of "[STORAGE_KEY \<mapsto> ''42'']" "''42''"
      "\<lambda>s. if s = ''42'' then Inr (Num (Fin 42))
           else if s = ''null'' then Inr Null else Inl SyntaxError" "Num (Fin 42)"
      "Store [STORAGE_KEY \<mapsto> ''42'']"]
    initFavorites_unvalidated [of "[STORAGE_KEY \<mapsto> ''null'']" "''null''"
      "\<lambda>s. if s = ''42'' then Inr (Num (Fin 42))
           else if s = ''null'' then Inr Null else Inl SyntaxError" Null
      "Store [STORAGE_KEY \<mapsto> '''']"]
    initFavorites_unvalidated [of "[STORAGE_KEY \<mapsto> ''[]'']" "''[]''"
      "\<lambda>s. if s = ''[]'' then Inr (Arr []) else Inl SyntaxError" "Arr []"
      "Store [STORAGE_KEY \<mapsto> ''[]'']"]
    initFavorites_unvalidated [of "[STORAGE_KEY \<mapsto> ''[]'']" "''[]''"
      "\<lambda>s. Inl SyntaxError" "Arr []" "Unavailable"]
  by simp

subsection \<open>Negative and non-numeric indices\<close>

text \<open>
  Claim C8, as the specification states it, asks that a negative index be turned into ``no
  reading''. It is not: the index \<open>-1\<close> is classified, and its tier is ``Good''.
\<close>

theorem negative_index_counterexample:
  "(-1::real) < 0
   \<and> advice (Some (Fin (-1))) \<noteq> None
   \<and> map_option level (advice (Some (Fin (-1)))) = Some ''Good''"
  by (simp add: advice_def getHealthAdvice_def)

text \<open>
  Claim C8, amended. A negative index read from the feed is kept as it is and classified in
  the lowest band: tier ``Good'', no mask, and the estimator gives 0. A value of the feed
  that is not a number and whose conversion is not-a-number is stored as ``no reading'', for
  which the advice is \<^verbatim>\<open>null\<close> and the estimator gives 0.
\<close>

theorem invalid_index:
  "(v < 0 \<longrightarrow>
      feedAqi Number (Num (Fin v)) = Some (Fin v)
      \<and> advice (Some (Fin v)) = Some (getHealthAdvice (Fin v))
      \<and> level (getHealthAdvice (Fin v)) = ''Good''
      \<and> mask (getHealthAdvice (Fin v)) = False
      \<and> getCigaretteEquivalent (Some (Fin v)) = 0)
   \<and> ((\<forall>n. d \<noteq> Num n) \<and> Number d = NaN \<longrightarrow>
      feedAqi Number d = None
      \<and> advice (feedAqi Number d) = None
      \<and> getCigaretteEquivalent (feedAqi Number d) = 0)"
  by (cases d)
    (simp_all add: feedAqi_def advice_def getHealthAdvice_def getCigaretteEquivalent_def)

text \<open>
  The amended C8 at the index \<open>-5\<close> and at the text \<^verbatim>\<open>-\<close>, which the conversion
  turns into not-a-number.
\<close>

theorem invalid_index_witness:
  "(-5::real) < 0
   \<and> level (getHealthAdvice (Fin (-5))) = ''Good''
   \<and> getCigaretteEquivalent (Some (Fin (-5))) = 0
   \<and> (\<forall>n. Str ''-'' \<noteq> Num n) \<and> (\<lambda>d. NaN) (Str ''-'') = NaN
   \<and> feedAqi (\<lambda>d. NaN) (Str ''-'') = None
   \<and> advice (feedAqi (\<lambda>d. NaN) (Str ''-'')) = None
   \<and> getCigaretteEquivalent (feedAqi (\<lambda>d. NaN) (Str ''-'')) = 0"
  using invalid_index [of "-5" "\<lambda>d. NaN" "Str ''-''"]
  by (simp add: advice_def getCigaretteEquivalent_def)

end
